theory Spec2Isabelle
  imports Main
begin

unbundle bit_operations_syntax

section \<open>JavaScript values used by \<open>src/structures/channel.ts\<close>\<close>

text \<open>
  Strings are lists of characters and \<open>.length\<close> is the length of that list. Numbers are
  integers (permission masks, limits). An optional property \<open>p?: T\<close> is a \<open>T option\<close>,
  \<open>None\<close> standing for \<open>undefined\<close>. A payload that is only passed through (transport
  results, invite and edit options) is a \<open>json\<close> value.
\<close>

datatype json =
    JNull
  | JBool bool
  | JNum int
  | JStr string
  | JArr "json list"
  | JObj "(string \<times> json) list"

text \<open>
  \<open>a & b\<close>: both operands go through ToInt32 (the value modulo \<open>2^32\<close>, read as a signed
  32-bit integer), then the bits are combined.
\<close>

definition js_bitand :: "int \<Rightarrow> int \<Rightarrow> int" where
  "js_bitand a b = signed_take_bit 31 a AND signed_take_bit 31 b"

text \<open>
  \<open>if (g) f(g) else d\<close> for an optional string \<open>g\<close>: \<open>undefined\<close> and the empty string
  are falsy, every other string is truthy.
\<close>

definition when_guild :: "string option \<Rightarrow> (string \<Rightarrow> 'a) \<Rightarrow> 'a \<Rightarrow> 'a" where
  "when_guild gid f d = (case gid of None \<Rightarrow> d | Some g \<Rightarrow> if g \<noteq> [] then f g else d)"

text \<open>\<open>Array.prototype.every\<close>: stops at the first element whose test is false.\<close>

fun every :: "('a \<Rightarrow> bool) \<Rightarrow> 'a list \<Rightarrow> bool" where
  "every p [] = True"
| "every p (x # xs) = (if p x then every p xs else False)"

text \<open>
  \<open>xs.splice(0, n)\<close>: the removed elements (the value of the call) and what is left in
  the array \<open>xs\<close> afterwards.
\<close>

definition splice0 :: "nat \<Rightarrow> 'a list \<Rightarrow> 'a list \<times> 'a list" where
  "splice0 n xs = (take n xs, drop n xs)"

section \<open>Data model\<close>

text \<open>
  The types are declared in \<open>types/channel.ts\<close>, \<open>types/permission.ts\<close> and
  \<open>types/errors.ts\<close>; the records below hold the properties that \<open>channel.ts\<close> reads, under the names it uses (\<open>id\<close> is written \<open>id'\<close> for the channel
  payload and \<open>overwrite_id\<close> for an overwrite), and keep the remaining properties in
  \<open>other\<close> fields.
\<close>

record 'm Overwrite =
  overwrite_id :: string
  overwrite_type :: string
  allow :: 'm
  deny :: 'm

record ChannelCreatePayload =
  id' :: string
  guild_id :: "string option"
  last_message_id :: "string option"
  user_limit :: "int option"
  rate_limit_per_user :: "int option"
  parent_id :: "string option"
  last_pin_timestamp :: "string option"
  permission_overwrites :: "int Overwrite list option"
  nsfw :: "bool option"
  other_properties :: "(string \<times> json) list"

text \<open>
  The object built by \<open>createChannel\<close>: the spread \<open>...data\<close> is the inherited part of the
  record, followed by the properties the literal adds. The later key \<open>nsfw\<close> overrides the
  spread one, so the inherited \<open>nsfw\<close> field of a channel holds the defaulted flag. The
  function-valued properties are the definitions of the next sections, which take what
  the closures capture (\<open>data\<close>, and \<open>channel\<close> for \<open>hasPermission\<close>) as arguments.
\<close>

record 'p Channel = ChannelCreatePayload +
  raw :: ChannelCreatePayload
  guildID :: "string option"
  lastMessageID :: "string option"
  userLimit :: "int option"
  rateLimitPerUser :: "int option"
  parentID :: "string option"
  lastPinTimestamp :: "string option"
  permissions :: "'p Overwrite list"
  mention :: string

text \<open>The members of the numeric enum \<open>Permissions\<close> that \<open>channel.ts\<close> names.\<close>

record PermissionsEnum =
  CREATE_INSTANT_INVITE :: int
  MANAGE_CHANNELS :: int
  VIEW_CHANNEL :: int
  SEND_MESSAGES :: int
  SEND_TTS_MESSAGES :: int
  MANAGE_MESSAGES :: int
  READ_MESSAGE_HISTORY :: int
  MANAGE_WEBHOOKS :: int

text \<open>The members of \<open>Errors\<close> that \<open>channel.ts\<close> throws.\<close>

datatype Errors =
    MISSING_VIEW_CHANNEL
  | MISSING_READ_MESSAGE_HISTORY
  | MISSING_SEND_MESSAGES
  | MISSING_SEND_TTS_MESSAGE
  | MESSAGE_MAX_LENGTH
  | MISSING_MANAGE_MESSAGES
  | DELETE_MESSAGES_MIN
  | MISSING_MANAGE_CHANNELS
  | MISSING_CREATE_INSTANT_INVITE
  | MISSING_MANAGE_WEBHOOKS

record GetMessagesOptions =
  limit :: "int option"
  after :: "string option"
  before :: "string option"
  around :: "string option"

record MessageContent =
  content :: "string option"
  tts :: "bool option"
  other_content :: "(string \<times> json) list"

datatype content_arg = Str string | Obj MessageContent

section \<open>Transport, promises and the world\<close>

text \<open>
  The path builders of \<open>constants/discord.ts\<close> are kept symbolic: an endpoint is the
  name of the builder applied to its identifiers.
\<close>

datatype endpoint =
    CHANNEL_MESSAGE string string
  | CHANNEL_MESSAGES string
  | CHANNEL_PINS string
  | CHANNEL_BULK_DELETE string
  | CHANNEL_INVITES string
  | CHANNEL_WEBHOOKS string
  | GUILD_CHANNELS string

datatype body =
    MessageBody MessageContent
  | BulkDeleteBody (messages: "string list") (reason: "string option")
  | OptionsBody json

datatype request =
    GET endpoint "GetMessagesOptions option"
  | POST endpoint body
  | PATCH endpoint body

text \<open>
  The promise the transport returns, once settled: fulfilled with a raw payload, or failed
  with an error of the transport's own.
\<close>

datatype response = Fulfilled json | Failed string

text \<open>
  The promise an \<open>async\<close> function returns, once settled. A \<open>throw\<close> in its body
  rejects it with the thrown error; a transport promise that fails while awaited rejects it
  with the transport's error. A function that is not \<open>async\<close> throws to its caller
  (\<open>Inl\<close>) or returns the transport's promise (\<open>Inr\<close>).
\<close>

datatype rejection = Error Errors | TypeError | TransportFailure string

datatype 'a promise = Resolved 'a | Rejected rejection

text \<open>
  What the module imports and calls: the enum table, the guild permission oracle
  \<open>botHasPermission\<close>, the transport \<open>RequestManager\<close> (its answer to a request), the
  message factory \<open>createMessage\<close> and the mask decoder \<open>calculatePermissions\<close>. Their
  code is outside \<open>channel.ts\<close>; they are parameters.
\<close>

record ('msg, 'p) deps =
  Permissions :: PermissionsEnum
  botHasPermission :: "string \<Rightarrow> int list \<Rightarrow> bool"
  RequestManager :: "request \<Rightarrow> response"
  createMessage :: "json \<Rightarrow> 'msg"
  calculatePermissions :: "int \<Rightarrow> 'p"

text \<open>
  The effects of the module: the transport calls issued so far, the warnings logged so
  far, and the process-wide channel cache.
\<close>

record 'p World =
  requests :: "request list"
  warnings :: "string list"
  cache :: "string \<rightharpoonup> 'p Channel"

definition dispatch :: "request \<Rightarrow> 'p World \<Rightarrow> 'p World" where
  "dispatch req st = st\<lparr>requests := requests st @ [req]\<rparr>"

text \<open>
  Modelled from the spec: \<open>logYellow\<close> of \<open>utils/logger.ts\<close> is missing; the spec calls it
  a warning side effect, recorded here in the log of warnings.
\<close>

definition logYellow :: "string \<Rightarrow> 'p World \<Rightarrow> 'p World" where
  "logYellow msg st = st\<lparr>warnings := warnings st @ [msg]\<rparr>"

text \<open>
  Modelled from the spec: \<open>updateChannelCache\<close> of \<open>module/client.ts\<close> is missing; the
  spec's \<open>put(id, entity)\<close> is an unconditional overwrite of the entry for \<open>id\<close>.
\<close>

definition updateChannelCache :: "string \<Rightarrow> 'p Channel \<Rightarrow> 'p World \<Rightarrow> 'p World" where
  "updateChannelCache cid channel st = st\<lparr>cache := (cache st)(cid \<mapsto> channel)\<rparr>"

section \<open>\<open>createChannel\<close> and \<open>hasPermission\<close>\<close>

definition createChannel ::
  "('msg, 'p) deps \<Rightarrow> ChannelCreatePayload \<Rightarrow> 'p World \<Rightarrow> 'p Channel \<times> 'p World" where
  "createChannel d data st =
    (let channel = \<lparr>
        id' = id' data,
        guild_id = guild_id data,
        last_message_id = last_message_id data,
        user_limit = user_limit data,
        rate_limit_per_user = rate_limit_per_user data,
        parent_id = parent_id data,
        last_pin_timestamp = last_pin_timestamp data,
        permission_overwrites = permission_overwrites data,
        nsfw = Some (case nsfw data of Some b \<Rightarrow> b | None \<Rightarrow> False),
        other_properties = other_properties data,
        raw = data,
        guildID = guild_id data,
        lastMessageID = last_message_id data,
        userLimit = user_limit data,
        rateLimitPerUser = rate_limit_per_user data,
        parentID = parent_id data,
        lastPinTimestamp = last_pin_timestamp data,
        permissions =
          (case permission_overwrites data of
             Some overwrites \<Rightarrow>
               map (\<lambda>perm. \<lparr>overwrite_id = overwrite_id perm,
                             overwrite_type = overwrite_type perm,
                             allow = calculatePermissions d (allow perm),
                             deny = calculatePermissions d (deny perm)\<rparr>) overwrites
           | None \<Rightarrow> []),
        mention = ''<#'' @ id' data @ ''>''\<rparr>
     in (channel, updateChannelCache (id' data) channel st))"

text \<open>
  \<open>data.permission_overwrites?.find(byId) || data.permission_overwrites?.find(byGuild)\<close>:
  an overwrite object is truthy, so the second search runs exactly when the first one
  finds nothing; a string never equals \<open>undefined\<close>.
\<close>

definition find_overwrite ::
  "ChannelCreatePayload \<Rightarrow> 'p Channel \<Rightarrow> string \<Rightarrow> int Overwrite option" where
  "find_overwrite data channel uid =
    (case permission_overwrites data of
       None \<Rightarrow> None
     | Some overwrites \<Rightarrow>
         (case find (\<lambda>perm. overwrite_id perm = uid) overwrites of
            Some overwrite \<Rightarrow> Some overwrite
          | None \<Rightarrow> find (\<lambda>perm. Some (overwrite_id perm) = guildID channel) overwrites))"

definition hasPermission ::
  "('msg, 'p) deps \<Rightarrow> ChannelCreatePayload \<Rightarrow> 'p Channel \<Rightarrow> string \<Rightarrow> int list \<Rightarrow> bool" where
  "hasPermission d data channel uid perms =
    (case find_overwrite data channel uid of
       None \<Rightarrow> False
     | Some overwrite \<Rightarrow>
         every (\<lambda>perm.
           if js_bitand (deny overwrite) perm \<noteq> 0 then False
           else if js_bitand (allow overwrite) perm \<noteq> 0 then True
           else when_guild (guildID channel) (\<lambda>g. botHasPermission d g [perm]) False) perms)"

section \<open>Guarded actions\<close>

text \<open>
  Each action takes the captured payload \<open>data\<close>, its arguments and the world, and gives
  back its result and the world afterwards. The permission assertions of an action are
  collected as the error they throw, if any (\<open>None\<close>: nothing thrown).
\<close>

definition getMessage ::
  "('msg, 'p) deps \<Rightarrow> ChannelCreatePayload \<Rightarrow> string \<Rightarrow> 'p World \<Rightarrow> 'msg promise \<times> 'p World" where
  "getMessage d data mid st =
    (case when_guild (guild_id data)
            (\<lambda>g. if \<not> botHasPermission d g [VIEW_CHANNEL (Permissions d)]
                  then Some MISSING_VIEW_CHANNEL
                  else if \<not> botHasPermission d g [READ_MESSAGE_HISTORY (Permissions d)]
                  then Some MISSING_READ_MESSAGE_HISTORY
                  else None) None of
       Some e \<Rightarrow> (Rejected (Error e), st)
     | None \<Rightarrow>
         (let req = GET (CHANNEL_MESSAGE (id' data) mid) None
          in (case RequestManager d req of
                Fulfilled result \<Rightarrow> Resolved (createMessage d result)
              | Failed f \<Rightarrow> Rejected (TransportFailure f),
              dispatch req st)))"

text \<open>
  \<open>options?.limit && options.limit > 100\<close>: a limit that is absent or \<open>0\<close> is falsy.
  The early \<open>return\<close> resolves the promise with \<open>undefined\<close> (\<open>None\<close>). \<open>result.map\<close> on a
  transport result that is not an array is a TypeError.
\<close>

definition getMessages ::
  "('msg, 'p) deps \<Rightarrow> ChannelCreatePayload \<Rightarrow> GetMessagesOptions option \<Rightarrow> 'p World
     \<Rightarrow> 'msg list option promise \<times> 'p World" where
  "getMessages d data options st =
    (case when_guild (guild_id data)
            (\<lambda>g. if \<not> botHasPermission d g [VIEW_CHANNEL (Permissions d)]
                  then Some MISSING_VIEW_CHANNEL
                  else if \<not> botHasPermission d g [READ_MESSAGE_HISTORY (Permissions d)]
                  then Some MISSING_READ_MESSAGE_HISTORY
                  else None) None of
       Some e \<Rightarrow> (Rejected (Error e), st)
     | None \<Rightarrow>
         if (case options of
               None \<Rightarrow> False
             | Some opts \<Rightarrow> (case limit opts of None \<Rightarrow> False | Some n \<Rightarrow> n \<noteq> 0 \<and> n > 100))
         then (Resolved None, st)
         else
           (let req = GET (CHANNEL_MESSAGES (id' data)) options
            in (case RequestManager d req of
                  Fulfilled (JArr result) \<Rightarrow> Resolved (Some (map (createMessage d) result))
                | Fulfilled _ \<Rightarrow> Rejected TypeError
                | Failed f \<Rightarrow> Rejected (TransportFailure f),
                dispatch req st)))"

definition getPins ::
  "('msg, 'p) deps \<Rightarrow> ChannelCreatePayload \<Rightarrow> 'p World \<Rightarrow> 'msg list promise \<times> 'p World" where
  "getPins d data st =
    (let req = GET (CHANNEL_PINS (id' data)) None
     in (case RequestManager d req of
           Fulfilled (JArr result) \<Rightarrow> Resolved (map (createMessage d) result)
         | Fulfilled _ \<Rightarrow> Rejected TypeError
         | Failed f \<Rightarrow> Rejected (TransportFailure f),
         dispatch req st))"

text \<open>
  \<open>if (typeof content === "string") content = { content }\<close>, written as a function of
  the argument.
\<close>

definition normalize_content :: "content_arg \<Rightarrow> MessageContent" where
  "normalize_content arg =
    (case arg of
       Str s \<Rightarrow> \<lparr>content = Some s, tts = None, other_content = []\<rparr>
     | Obj c \<Rightarrow> c)"

text \<open>
  \<open>content.content && content.content.length > 2000\<close>: an absent or empty text is falsy.
  \<open>content.tts && ...\<close>: an absent or false flag is falsy.
\<close>

definition sendMessage ::
  "('msg, 'p) deps \<Rightarrow> ChannelCreatePayload \<Rightarrow> content_arg \<Rightarrow> 'p World \<Rightarrow> 'msg promise \<times> 'p World" where
  "sendMessage d data arg st =
    (let c = normalize_content arg
     in case when_guild (guild_id data)
               (\<lambda>g. if \<not> botHasPermission d g [SEND_MESSAGES (Permissions d)]
                     then Some MISSING_SEND_MESSAGES
                     else if tts c = Some True
                             \<and> \<not> botHasPermission d g [SEND_TTS_MESSAGES (Permissions d)]
                     then Some MISSING_SEND_TTS_MESSAGE
                     else None) None of
          Some e \<Rightarrow> (Rejected (Error e), st)
        | None \<Rightarrow>
            if (case content c of None \<Rightarrow> False | Some s \<Rightarrow> s \<noteq> [] \<and> length s > 2000)
            then (Rejected (Error MESSAGE_MAX_LENGTH), st)
            else
              (let req = POST (CHANNEL_MESSAGES (id' data)) (MessageBody c)
               in (case RequestManager d req of
                     Fulfilled result \<Rightarrow> Resolved (createMessage d result)
                   | Failed f \<Rightarrow> Rejected (TransportFailure f),
                   dispatch req st)))"

text \<open>
  \<open>deleteMessages\<close> also gives back the caller's array \<open>ids\<close> as it is after the call:
  \<open>ids.splice(0, 100)\<close> removes from it what it puts in the request body.
\<close>

definition deleteMessages ::
  "('msg, 'p) deps \<Rightarrow> ChannelCreatePayload \<Rightarrow> string list \<Rightarrow> string option \<Rightarrow> 'p World
     \<Rightarrow> (Errors + response) \<times> string list \<times> 'p World" where
  "deleteMessages d data ids rsn st =
    (if when_guild (guild_id data)
          (\<lambda>g. \<not> botHasPermission d g [MANAGE_MESSAGES (Permissions d)]) False
     then (Inl MISSING_MANAGE_MESSAGES, ids, st)
     else if length ids < 2 then (Inl DELETE_MESSAGES_MIN, ids, st)
     else
       (let st1 = (if length ids > 100
                   then logYellow ''This endpoint only accepts a maximum of 100 messages. Deleting the first 100 message ids provided.'' st
                   else st);
            (removed, ids') = splice0 100 ids;
            req = POST (CHANNEL_BULK_DELETE (id' data)) (BulkDeleteBody removed rsn)
        in (Inr (RequestManager d req), ids', dispatch req st1)))"

definition getInvites ::
  "('msg, 'p) deps \<Rightarrow> ChannelCreatePayload \<Rightarrow> 'p World \<Rightarrow> (Errors + response) \<times> 'p World" where
  "getInvites d data st =
    (if when_guild (guild_id data)
          (\<lambda>g. \<not> botHasPermission d g [MANAGE_CHANNELS (Permissions d)]) False
     then (Inl MISSING_MANAGE_CHANNELS, st)
     else
       (let req = GET (CHANNEL_INVITES (id' data)) None
        in (Inr (RequestManager d req), dispatch req st)))"

definition createInvite ::
  "('msg, 'p) deps \<Rightarrow> ChannelCreatePayload \<Rightarrow> json \<Rightarrow> 'p World \<Rightarrow> (Errors + response) \<times> 'p World" where
  "createInvite d data options st =
    (if when_guild (guild_id data)
          (\<lambda>g. \<not> botHasPermission d g [CREATE_INSTANT_INVITE (Permissions d)]) False
     then (Inl MISSING_CREATE_INSTANT_INVITE, st)
     else
       (let req = POST (CHANNEL_INVITES (id' data)) (OptionsBody options)
        in (Inr (RequestManager d req), dispatch req st)))"

definition getWebhooks ::
  "('msg, 'p) deps \<Rightarrow> ChannelCreatePayload \<Rightarrow> 'p World \<Rightarrow> (Errors + response) \<times> 'p World" where
  "getWebhooks d data st =
    (if when_guild (guild_id data)
          (\<lambda>g. \<not> botHasPermission d g [MANAGE_WEBHOOKS (Permissions d)]) False
     then (Inl MISSING_MANAGE_WEBHOOKS, st)
     else
       (let req = GET (CHANNEL_WEBHOOKS (id' data)) None
        in (Inr (RequestManager d req), dispatch req st)))"

text \<open>\<open>edit\<close> has no \<open>throw\<close>: it hands the options to the transport and returns its promise.\<close>

definition edit ::
  "('msg, 'p) deps \<Rightarrow> ChannelCreatePayload \<Rightarrow> json \<Rightarrow> 'p World \<Rightarrow> response \<times> 'p World" where
  "edit d data options st =
    (let req = PATCH (GUILD_CHANNELS (id' data)) (OptionsBody options)
     in (RequestManager d req, dispatch req st))"

section \<open>Sample inputs\<close>

text \<open>
  An enum table with the platform's values of the eight flags (\<open>VIEW_CHANNEL\<close> is
  \<open>1024\<close>), collaborators that answer every question the same way, and the payloads the
  theorems below are instantiated at.
\<close>

definition sample_permissions :: PermissionsEnum where
  "sample_permissions = \<lparr>
     CREATE_INSTANT_INVITE = 1,
     MANAGE_CHANNELS = 16,
     VIEW_CHANNEL = 1024,
     SEND_MESSAGES = 2048,
     SEND_TTS_MESSAGES = 4096,
     MANAGE_MESSAGES = 8192,
     READ_MESSAGE_HISTORY = 65536,
     MANAGE_WEBHOOKS = 536870912\<rparr>"

definition sample_deps :: "bool \<Rightarrow> (json, int) deps" where
  "sample_deps granted = \<lparr>
     Permissions = sample_permissions,
     botHasPermission = (\<lambda>g perms. granted),
     RequestManager = (\<lambda>req. Fulfilled (JArr [])),
     createMessage = (\<lambda>result. result),
     calculatePermissions = (\<lambda>bits. bits)\<rparr>"

definition guild_payload :: ChannelCreatePayload where
  "guild_payload = \<lparr>
     id' = ''10'',
     guild_id = Some ''1'',
     last_message_id = None,
     user_limit = None,
     rate_limit_per_user = None,
     parent_id = None,
     last_pin_timestamp = None,
     permission_overwrites =
       Some [\<lparr>overwrite_id = ''1'', overwrite_type = ''role'', allow = 1024, deny = 0\<rparr>],
     nsfw = None,
     other_properties = []\<rparr>"

definition guildless_payload :: ChannelCreatePayload where
  "guildless_payload = \<lparr>
     id' = ''10'',
     guild_id = None,
     last_message_id = None,
     user_limit = None,
     rate_limit_per_user = None,
     parent_id = None,
     last_pin_timestamp = None,
     permission_overwrites =
       Some [\<lparr>overwrite_id = ''5'', overwrite_type = ''member'', allow = 1024, deny = 0\<rparr>],
     nsfw = None,
     other_properties = []\<rparr>"

definition bare_payload :: ChannelCreatePayload where
  "bare_payload = \<lparr>
     id' = ''10'',
     guild_id = None,
     last_message_id = None,
     user_limit = None,
     rate_limit_per_user = None,
     parent_id = None,
     last_pin_timestamp = None,
     permission_overwrites = None,
     nsfw = None,
     other_properties = []\<rparr>"

definition empty_world :: "int World" where
  "empty_world = \<lparr>requests = [], warnings = [], cache = Map.empty\<rparr>"

definition many_ids :: "nat \<Rightarrow> string list" where
  "many_ids n = map (\<lambda>k. replicate (Suc k) CHR ''7'') [0..<n]"

definition long_text :: "nat \<Rightarrow> string" where
  "long_text n = replicate n CHR ''a''"

section \<open>Auxiliary facts\<close>

lemma every_iff_all: "every p xs = (\<forall>x\<in>set xs. p x)"
  by (induction xs) auto

lemma find_Some_holds: "find P xs = Some x \<Longrightarrow> x \<in> set xs \<and> P x"
  by (induction xs) (auto split: if_splits)

lemma when_guild_None [simp]: "when_guild None f d = d"
  by (simp add: when_guild_def)

lemma when_guild_Some: "when_guild (Some g) f d = (if g \<noteq> [] then f g else d)"
  by (simp add: when_guild_def)

lemma length_many_ids [simp]: "length (many_ids n) = n"
  by (simp add: many_ids_def)

lemma length_long_text [simp]: "length (long_text n) = n"
  by (simp add: long_text_def)

section \<open>The overwrite resolver\<close>

text \<open>
  Claim C1. \<open>hasPermission\<close> works on the overwrite selected as follows: the first
  overwrite of the payload whose id equals the actor id, otherwise the first one whose id
  equals the channel's guild id. There is no selected overwrite exactly when no overwrite
  carries either id, and then the answer is false whatever the oracle says. Otherwise the
  answer is true if and only if every required flag is outside the deny mask of the
  selected overwrite (\<open>deny & flag\<close> is \<open>0\<close>) and is inside its allow mask
  (\<open>allow & flag\<close> is not \<open>0\<close>) or, the guild id being set, granted by the oracle asked
  about that single flag. A guild id is set when the test \<open>if (channel.guildID)\<close>
  succeeds: it is present and not the empty string. The conjunction is the
  short-circuiting \<open>every\<close>, which agrees with the quantifier over all required flags.
\<close>

theorem C1_hasPermission_resolution:
  "(let overwrites = (case permission_overwrites data of Some xs \<Rightarrow> xs | None \<Rightarrow> []);
        selected = (case find (\<lambda>ow. overwrite_id ow = actor) overwrites of
                      Some ow \<Rightarrow> Some ow
                    | None \<Rightarrow> find (\<lambda>ow. Some (overwrite_id ow) = guildID channel) overwrites)
    in find_overwrite data channel actor = selected \<and>
       (selected = None \<longleftrightarrow>
          (\<forall>ow\<in>set overwrites. overwrite_id ow \<noteq> actor \<and> Some (overwrite_id ow) \<noteq> guildID channel)) \<and>
       (case selected of
          None \<Rightarrow> \<not> hasPermission d data channel actor required
        | Some ow \<Rightarrow>
            hasPermission d data channel actor required =
              (\<forall>flag\<in>set required.
                 js_bitand (deny ow) flag = 0 \<and>
                 (js_bitand (allow ow) flag \<noteq> 0 \<or>
                  (\<exists>g. guildID channel = Some g \<and> g \<noteq> [] \<and> botHasPermission d g [flag])))))"
proof -
  define overwrites where
    "overwrites = (case permission_overwrites data of Some xs \<Rightarrow> xs | None \<Rightarrow> [])"
  define selected where
    "selected = (case find (\<lambda>ow. overwrite_id ow = actor) overwrites of
                   Some ow \<Rightarrow> Some ow
                 | None \<Rightarrow> find (\<lambda>ow. Some (overwrite_id ow) = guildID channel) overwrites)"
  have sel: "find_overwrite data channel actor = selected"
    by (simp add: find_overwrite_def selected_def overwrites_def split: option.splits)
  have none: "selected = None \<longleftrightarrow>
      (\<forall>ow\<in>set overwrites. overwrite_id ow \<noteq> actor \<and> Some (overwrite_id ow) \<noteq> guildID channel)"
    by (auto simp: selected_def find_None_iff split: option.splits dest: find_Some_holds)
  have res: "case selected of
          None \<Rightarrow> \<not> hasPermission d data channel actor required
        | Some ow \<Rightarrow>
            hasPermission d data channel actor required =
              (\<forall>flag\<in>set required.
                 js_bitand (deny ow) flag = 0 \<and>
                 (js_bitand (allow ow) flag \<noteq> 0 \<or>
                  (\<exists>g. guildID channel = Some g \<and> g \<noteq> [] \<and> botHasPermission d g [flag])))"
    unfolding sel [symmetric]
    by (auto simp: hasPermission_def every_iff_all when_guild_def split: option.splits)
  from sel none res show ?thesis
    unfolding Let_def overwrites_def [symmetric] selected_def [symmetric] by blast
qed

text \<open>
  The spec's scenario: the channel \<open>10\<close> of guild \<open>1\<close> with one overwrite for id \<open>1\<close>
  allowing \<open>1024\<close>; actor \<open>2\<close> has no overwrite of its own, the guild's one is selected and
  grants \<open>VIEW_CHANNEL\<close> although the oracle would refuse.
\<close>

theorem C1_hasPermission_resolution_witness:
  "hasPermission (sample_deps False) guild_payload
     (fst (createChannel (sample_deps False) guild_payload empty_world)) ''2'' [1024]"
  using C1_hasPermission_resolution [where data = guild_payload and actor = "''2''"
     and channel = "fst (createChannel (sample_deps False) guild_payload empty_world)"
     and d = "sample_deps False" and required = "[1024]"]
  by (simp add: guild_payload_def createChannel_def Let_def js_bitand_def)

text \<open>
  Claim C2, as the code has it. A channel without \<open>guildID\<close> does not make
  \<open>hasPermission\<close> false for every actor and every list of flags: the allow mask is
  consulted before the guild id, so an actor with an overwrite of its own that allows a
  flag is granted it, and the empty list of flags is granted to every actor that has an
  overwrite.
\<close>

theorem C2_hasPermission_without_guild_counterexample:
  "guildID (fst (createChannel (sample_deps False) guildless_payload empty_world)) = None \<and>
   hasPermission (sample_deps False) guildless_payload
     (fst (createChannel (sample_deps False) guildless_payload empty_world)) ''5'' [1024]"
  by (simp add: hasPermission_def find_overwrite_def guildless_payload_def createChannel_def
        Let_def js_bitand_def)

text \<open>
  Claim C2, amended. Without a \<open>guildID\<close> the oracle is never consulted, and the answer
  is true exactly when the payload has an overwrite whose id equals the actor id and the
  first such overwrite allows, and does not deny, every requested flag. So the answer is
  false whenever the actor has no overwrite of its own or some requested flag is not
  explicitly allowed.
\<close>

theorem C2_hasPermission_without_guild:
  assumes "guildID channel = None"
  shows "hasPermission d data channel actor required =
     (\<exists>ow. find (\<lambda>ow. overwrite_id ow = actor)
               (case permission_overwrites data of Some xs \<Rightarrow> xs | None \<Rightarrow> []) = Some ow \<and>
           (\<forall>flag\<in>set required.
              js_bitand (deny ow) flag = 0 \<and> js_bitand (allow ow) flag \<noteq> 0))"
proof (cases "permission_overwrites data")
  case None
  then show ?thesis
    by (simp add: hasPermission_def find_overwrite_def)
next
  case (Some xs)
  have no_guild: "find (\<lambda>perm. Some (overwrite_id perm) = guildID channel) xs = None"
    using assms by (simp add: find_None_iff)
  show ?thesis
  proof (cases "find (\<lambda>ow. overwrite_id ow = actor) xs")
    case None
    with Some no_guild show ?thesis
      by (simp add: hasPermission_def find_overwrite_def)
  next
    case (Some ow)
    with \<open>permission_overwrites data = Some xs\<close> assms show ?thesis
      by (auto simp: hasPermission_def find_overwrite_def every_iff_all)
  qed
qed

theorem C2_hasPermission_without_guild_witness:
  "\<not> hasPermission (sample_deps True) guildless_payload
       (fst (createChannel (sample_deps True) guildless_payload empty_world)) ''5'' [1024, 2048] \<and>
   \<not> hasPermission (sample_deps True) guildless_payload
       (fst (createChannel (sample_deps True) guildless_payload empty_world)) ''6'' [1024]"
  using C2_hasPermission_without_guild [where data = guildless_payload and actor = "''5''"
     and channel = "fst (createChannel (sample_deps True) guildless_payload empty_world)"
     and d = "sample_deps True" and required = "[1024, 2048]"]
    C2_hasPermission_without_guild [where data = guildless_payload and actor = "''6''"
     and channel = "fst (createChannel (sample_deps True) guildless_payload empty_world)"
     and d = "sample_deps True" and required = "[1024]"]
  by (simp add: guildless_payload_def createChannel_def Let_def js_bitand_def)


section \<open>Guarded actions: order of the checks\<close>

text \<open>
  Claim C3, as the code has it. Structural validation does not run before the permission
  assertions: \<open>deleteMessages\<close> with a single id on a guild channel where
  \<open>MANAGE_MESSAGES\<close> is refused throws the missing-permission error, not the
  below-minimum error, and \<open>sendMessage\<close> with 2001 characters where \<open>SEND_MESSAGES\<close>
  is refused is rejected with the missing-permission error, not the message-too-long one.
\<close>

theorem C3_validation_first_counterexample:
  "length [''1''] < 2 \<and>
   \<not> botHasPermission (sample_deps False) ''1'' [MANAGE_MESSAGES (Permissions (sample_deps False))] \<and>
   fst (deleteMessages (sample_deps False) guild_payload [''1''] None empty_world)
     = Inl MISSING_MANAGE_MESSAGES \<and>
   fst (deleteMessages (sample_deps False) guild_payload [''1''] None empty_world)
     \<noteq> Inl DELETE_MESSAGES_MIN \<and>
   2000 < length (long_text 2001) \<and>
   fst (sendMessage (sample_deps False) guild_payload (Str (long_text 2001)) empty_world)
     = Rejected (Error MISSING_SEND_MESSAGES) \<and>
   fst (sendMessage (sample_deps False) guild_payload (Str (long_text 2001)) empty_world)
     \<noteq> Rejected (Error MESSAGE_MAX_LENGTH)"
  by (simp add: deleteMessages_def sendMessage_def normalize_content_def when_guild_def
        sample_deps_def guild_payload_def)

text \<open>
  Claim C3, amended. On a guild channel the permission assertions run first. When a
  required permission is refused, \<open>deleteMessages\<close>, \<open>sendMessage\<close> and \<open>getMessages\<close>
  fail with the error of that permission whatever their arguments are, so also when the
  arguments fail structural validation; the world is left as it was (no transport call, no
  warning) and so is the array of ids. A validation error is raised only after the
  permission assertions have passed.
\<close>

theorem C3_permissions_before_validation:
  assumes "guild_id data = Some g" and "g \<noteq> []"
  shows
    "(\<not> botHasPermission d g [MANAGE_MESSAGES (Permissions d)] \<longrightarrow>
        deleteMessages d data ids rsn st = (Inl MISSING_MANAGE_MESSAGES, ids, st)) \<and>
     (\<not> botHasPermission d g [SEND_MESSAGES (Permissions d)] \<longrightarrow>
        sendMessage d data arg st = (Rejected (Error MISSING_SEND_MESSAGES), st)) \<and>
     (botHasPermission d g [SEND_MESSAGES (Permissions d)] \<and>
      tts (normalize_content arg) = Some True \<and>
      \<not> botHasPermission d g [SEND_TTS_MESSAGES (Permissions d)] \<longrightarrow>
        sendMessage d data arg st = (Rejected (Error MISSING_SEND_TTS_MESSAGE), st)) \<and>
     (\<not> botHasPermission d g [VIEW_CHANNEL (Permissions d)] \<longrightarrow>
        getMessages d data options st = (Rejected (Error MISSING_VIEW_CHANNEL), st)) \<and>
     (botHasPermission d g [VIEW_CHANNEL (Permissions d)] \<and>
      \<not> botHasPermission d g [READ_MESSAGE_HISTORY (Permissions d)] \<longrightarrow>
        getMessages d data options st = (Rejected (Error MISSING_READ_MESSAGE_HISTORY), st)) \<and>
     (fst (deleteMessages d data ids rsn st) = Inl DELETE_MESSAGES_MIN \<longrightarrow>
        botHasPermission d g [MANAGE_MESSAGES (Permissions d)]) \<and>
     (fst (sendMessage d data arg st) = Rejected (Error MESSAGE_MAX_LENGTH) \<longrightarrow>
        botHasPermission d g [SEND_MESSAGES (Permissions d)])"
proof -
  have del: "\<not> botHasPermission d g [MANAGE_MESSAGES (Permissions d)] \<Longrightarrow>
      deleteMessages d data ids rsn st = (Inl MISSING_MANAGE_MESSAGES, ids, st)"
    using assms by (simp add: deleteMessages_def when_guild_Some)
  have send: "\<not> botHasPermission d g [SEND_MESSAGES (Permissions d)] \<Longrightarrow>
      sendMessage d data arg st = (Rejected (Error MISSING_SEND_MESSAGES), st)"
    using assms by (simp add: sendMessage_def when_guild_Some Let_def)
  have send_tts: "botHasPermission d g [SEND_MESSAGES (Permissions d)] \<Longrightarrow>
      tts (normalize_content arg) = Some True \<Longrightarrow>
      \<not> botHasPermission d g [SEND_TTS_MESSAGES (Permissions d)] \<Longrightarrow>
      sendMessage d data arg st = (Rejected (Error MISSING_SEND_TTS_MESSAGE), st)"
    using assms by (simp add: sendMessage_def when_guild_Some Let_def)
  have view: "\<not> botHasPermission d g [VIEW_CHANNEL (Permissions d)] \<Longrightarrow>
      getMessages d data options st = (Rejected (Error MISSING_VIEW_CHANNEL), st)"
    using assms by (simp add: getMessages_def when_guild_Some)
  have history: "botHasPermission d g [VIEW_CHANNEL (Permissions d)] \<Longrightarrow>
      \<not> botHasPermission d g [READ_MESSAGE_HISTORY (Permissions d)] \<Longrightarrow>
      getMessages d data options st = (Rejected (Error MISSING_READ_MESSAGE_HISTORY), st)"
    using assms by (simp add: getMessages_def when_guild_Some)
  have del_min: "fst (deleteMessages d data ids rsn st) = Inl DELETE_MESSAGES_MIN \<Longrightarrow>
      botHasPermission d g [MANAGE_MESSAGES (Permissions d)]"
    using del by (cases "botHasPermission d g [MANAGE_MESSAGES (Permissions d)]") simp_all
  have send_max: "fst (sendMessage d data arg st) = Rejected (Error MESSAGE_MAX_LENGTH) \<Longrightarrow>
      botHasPermission d g [SEND_MESSAGES (Permissions d)]"
    using send by (cases "botHasPermission d g [SEND_MESSAGES (Permissions d)]") simp_all
  from del send send_tts view history del_min send_max show ?thesis
    by blast
qed

theorem C3_permissions_before_validation_witness:
  "deleteMessages (sample_deps False) guild_payload [''1''] None empty_world
     = (Inl MISSING_MANAGE_MESSAGES, [''1''], empty_world) \<and>
   sendMessage (sample_deps False) guild_payload (Str (long_text 2001)) empty_world
     = (Rejected (Error MISSING_SEND_MESSAGES), empty_world) \<and>
   getMessages (sample_deps False) guild_payload
       (Some \<lparr>limit = Some 150, after = None, before = None, around = None\<rparr>) empty_world
     = (Rejected (Error MISSING_VIEW_CHANNEL), empty_world)"
  using C3_permissions_before_validation [where data = guild_payload and g = "''1''"
     and d = "sample_deps False" and ids = "[''1'']" and rsn = None and st = empty_world
     and arg = "Str (long_text 2001)"
     and options = "Some \<lparr>limit = Some 150, after = None, before = None, around = None\<rparr>"]
  by (simp add: guild_payload_def sample_deps_def)

section \<open>Guarded actions: structural validation\<close>

text \<open>
  Claim C4. \<open>deleteMessages\<close> on a channel where \<open>MANAGE_MESSAGES\<close> is granted, or that
  has no guild id: with fewer than 2 ids it throws the below-minimum error and leaves the
  world as it was; with more than 100 ids it logs one warning, throws nothing, and issues
  exactly one transport call, whose body carries the first 100 ids in their order; with 2
  to 100 ids it issues exactly one transport call carrying all the ids and logs nothing.
\<close>

theorem C4_deleteMessages_bounds:
  assumes "guild_id data = None \<or>
           (\<exists>g. guild_id data = Some g \<and> botHasPermission d g [MANAGE_MESSAGES (Permissions d)])"
  shows
    "(length ids < 2 \<longrightarrow>
        fst (deleteMessages d data ids rsn st) = Inl DELETE_MESSAGES_MIN \<and>
        snd (snd (deleteMessages d data ids rsn st)) = st) \<and>
     (100 < length ids \<longrightarrow>
        fst (deleteMessages d data ids rsn st) =
          Inr (RequestManager d (POST (CHANNEL_BULK_DELETE (id' data))
                                   (BulkDeleteBody (take 100 ids) rsn))) \<and>
        requests (snd (snd (deleteMessages d data ids rsn st))) =
          requests st @ [POST (CHANNEL_BULK_DELETE (id' data)) (BulkDeleteBody (take 100 ids) rsn)] \<and>
        length (take 100 ids) = 100 \<and>
        (\<exists>w. warnings (snd (snd (deleteMessages d data ids rsn st))) = warnings st @ [w])) \<and>
     (2 \<le> length ids \<and> length ids \<le> 100 \<longrightarrow>
        fst (deleteMessages d data ids rsn st) =
          Inr (RequestManager d (POST (CHANNEL_BULK_DELETE (id' data)) (BulkDeleteBody ids rsn))) \<and>
        requests (snd (snd (deleteMessages d data ids rsn st))) =
          requests st @ [POST (CHANNEL_BULK_DELETE (id' data)) (BulkDeleteBody ids rsn)] \<and>
        warnings (snd (snd (deleteMessages d data ids rsn st))) = warnings st)"
proof -
  have pass: "\<not> when_guild (guild_id data)
                  (\<lambda>g. \<not> botHasPermission d g [MANAGE_MESSAGES (Permissions d)]) False"
    using assms by (auto simp: when_guild_def)
  have few: "length ids < 2 \<Longrightarrow> deleteMessages d data ids rsn st = (Inl DELETE_MESSAGES_MIN, ids, st)"
    using pass by (simp add: deleteMessages_def)
  have many: "100 < length ids \<Longrightarrow>
      deleteMessages d data ids rsn st =
        (Inr (RequestManager d (POST (CHANNEL_BULK_DELETE (id' data)) (BulkDeleteBody (take 100 ids) rsn))),
         drop 100 ids,
         dispatch (POST (CHANNEL_BULK_DELETE (id' data)) (BulkDeleteBody (take 100 ids) rsn))
           (logYellow ''This endpoint only accepts a maximum of 100 messages. Deleting the first 100 message ids provided.'' st))"
    using pass by (simp add: deleteMessages_def splice0_def Let_def)
  have mid: "2 \<le> length ids \<Longrightarrow> length ids \<le> 100 \<Longrightarrow>
      deleteMessages d data ids rsn st =
        (Inr (RequestManager d (POST (CHANNEL_BULK_DELETE (id' data)) (BulkDeleteBody ids rsn))),
         [],
         dispatch (POST (CHANNEL_BULK_DELETE (id' data)) (BulkDeleteBody ids rsn)) st)"
    using pass by (simp add: deleteMessages_def splice0_def Let_def)
  show ?thesis
  proof (intro conjI impI)
    assume "length ids < 2"
    from few [OF this]
    show "fst (deleteMessages d data ids rsn st) = Inl DELETE_MESSAGES_MIN"
      and "snd (snd (deleteMessages d data ids rsn st)) = st"
      by simp_all
  next
    assume "100 < length ids"
    then show "length (take 100 ids) = 100" by simp
    from many [OF \<open>100 < length ids\<close>]
    show "fst (deleteMessages d data ids rsn st) =
          Inr (RequestManager d (POST (CHANNEL_BULK_DELETE (id' data)) (BulkDeleteBody (take 100 ids) rsn)))"
      and "requests (snd (snd (deleteMessages d data ids rsn st))) =
          requests st @ [POST (CHANNEL_BULK_DELETE (id' data)) (BulkDeleteBody (take 100 ids) rsn)]"
      and "\<exists>w. warnings (snd (snd (deleteMessages d data ids rsn st))) = warnings st @ [w]"
      by (simp_all add: dispatch_def logYellow_def)
  next
    assume "2 \<le> length ids \<and> length ids \<le> 100"
    then have "2 \<le> length ids" and "length ids \<le> 100" by simp_all
    from mid [OF this]
    show "fst (deleteMessages d data ids rsn st) =
          Inr (RequestManager d (POST (CHANNEL_BULK_DELETE (id' data)) (BulkDeleteBody ids rsn)))"
      and "requests (snd (snd (deleteMessages d data ids rsn st))) =
          requests st @ [POST (CHANNEL_BULK_DELETE (id' data)) (BulkDeleteBody ids rsn)]"
      and "warnings (snd (snd (deleteMessages d data ids rsn st))) = warnings st"
      by (simp_all add: dispatch_def)
  qed
qed

theorem C4_deleteMessages_bounds_witness:
  "fst (deleteMessages (sample_deps True) guild_payload [''1''] None empty_world)
     = Inl DELETE_MESSAGES_MIN \<and>
   requests (snd (snd (deleteMessages (sample_deps True) guild_payload (many_ids 150) None empty_world)))
     = [POST (CHANNEL_BULK_DELETE ''10'') (BulkDeleteBody (take 100 (many_ids 150)) None)] \<and>
   requests (snd (snd (deleteMessages (sample_deps True) guild_payload (many_ids 3) None empty_world)))
     = [POST (CHANNEL_BULK_DELETE ''10'') (BulkDeleteBody (many_ids 3) None)]"
  using C4_deleteMessages_bounds [where data = guild_payload and d = "sample_deps True"
     and ids = "[''1'']" and rsn = None and st = empty_world]
    C4_deleteMessages_bounds [where data = guild_payload and d = "sample_deps True"
     and ids = "many_ids 150" and rsn = None and st = empty_world]
    C4_deleteMessages_bounds [where data = guild_payload and d = "sample_deps True"
     and ids = "many_ids 3" and rsn = None and st = empty_world]
  by (simp add: guild_payload_def sample_deps_def empty_world_def)


text \<open>
  Claim C5. A plain string argument of \<open>sendMessage\<close> is first turned into the object
  \<open>{content}\<close>. When the text of the normalized argument is present and longer than 2000
  characters, and the permission assertions pass or the channel has no guild id, the call
  is rejected with the message-too-long error and the world is left as it was, so no
  transport call is made.
\<close>

theorem C5_sendMessage_max_length:
  assumes "content (normalize_content arg) = Some s" and "2000 < length s"
    and "guild_id data = None \<or>
         (\<exists>g. guild_id data = Some g \<and>
              botHasPermission d g [SEND_MESSAGES (Permissions d)] \<and>
              (tts (normalize_content arg) = Some True \<longrightarrow>
                 botHasPermission d g [SEND_TTS_MESSAGES (Permissions d)]))"
  shows "sendMessage d data arg st = (Rejected (Error MESSAGE_MAX_LENGTH), st) \<and>
         requests (snd (sendMessage d data arg st)) = requests st \<and>
         normalize_content (Str t) = \<lparr>content = Some t, tts = None, other_content = []\<rparr> \<and>
         sendMessage d data (Str t) st =
           sendMessage d data (Obj \<lparr>content = Some t, tts = None, other_content = []\<rparr>) st"
proof -
  have pass: "when_guild (guild_id data)
               (\<lambda>g. if \<not> botHasPermission d g [SEND_MESSAGES (Permissions d)]
                     then Some MISSING_SEND_MESSAGES
                     else if tts (normalize_content arg) = Some True
                             \<and> \<not> botHasPermission d g [SEND_TTS_MESSAGES (Permissions d)]
                     then Some MISSING_SEND_TTS_MESSAGE
                     else None) None = None"
    using assms(3) by (auto simp: when_guild_def)
  from assms(2) have "s \<noteq> []" by auto
  with assms(1,2) pass
  have rejected: "sendMessage d data arg st = (Rejected (Error MESSAGE_MAX_LENGTH), st)"
    by (simp add: sendMessage_def Let_def)
  have norm: "normalize_content (Str t) = \<lparr>content = Some t, tts = None, other_content = []\<rparr>"
    by (simp add: normalize_content_def)
  have same: "sendMessage d data (Str t) st =
      sendMessage d data (Obj \<lparr>content = Some t, tts = None, other_content = []\<rparr>) st"
    by (simp add: sendMessage_def normalize_content_def)
  from rejected norm same show ?thesis by simp
qed

theorem C5_sendMessage_max_length_witness:
  "sendMessage (sample_deps True) guild_payload (Str (long_text 2001)) empty_world
     = (Rejected (Error MESSAGE_MAX_LENGTH), empty_world) \<and>
   sendMessage (sample_deps False) bare_payload
       (Obj \<lparr>content = Some (long_text 2001), tts = Some True, other_content = []\<rparr>) empty_world
     = (Rejected (Error MESSAGE_MAX_LENGTH), empty_world)"
  using C5_sendMessage_max_length [where data = guild_payload and d = "sample_deps True"
     and arg = "Str (long_text 2001)" and s = "long_text 2001" and st = empty_world
     and t = "''hi''"]
    C5_sendMessage_max_length [where data = bare_payload and d = "sample_deps False"
     and arg = "Obj \<lparr>content = Some (long_text 2001), tts = Some True, other_content = []\<rparr>"
     and s = "long_text 2001" and st = empty_world and t = "''hi''"]
  by (simp add: guild_payload_def bare_payload_def sample_deps_def normalize_content_def)

text \<open>
  Claim C6. \<open>getMessages\<close> whose permission assertions pass (or whose channel has no
  guild id): with a limit that is present and greater than 100 the promise resolves with
  no result (\<open>undefined\<close>) and the world is left as it was, so no transport call is made
  and no error is raised; with a limit of at most 100, or without one, exactly one
  transport call is issued.
\<close>

theorem C6_getMessages_limit:
  assumes "guild_id data = None \<or>
           (\<exists>g. guild_id data = Some g \<and>
                botHasPermission d g [VIEW_CHANNEL (Permissions d)] \<and>
                botHasPermission d g [READ_MESSAGE_HISTORY (Permissions d)])"
  shows
    "((\<exists>opts n. options = Some opts \<and> limit opts = Some n \<and> 100 < n) \<longrightarrow>
        getMessages d data options st = (Resolved None, st)) \<and>
     ((\<forall>opts n. options = Some opts \<and> limit opts = Some n \<longrightarrow> n \<le> 100) \<longrightarrow>
        requests (snd (getMessages d data options st)) =
          requests st @ [GET (CHANNEL_MESSAGES (id' data)) options])"
proof -
  have pass: "when_guild (guild_id data)
            (\<lambda>g. if \<not> botHasPermission d g [VIEW_CHANNEL (Permissions d)]
                  then Some MISSING_VIEW_CHANNEL
                  else if \<not> botHasPermission d g [READ_MESSAGE_HISTORY (Permissions d)]
                  then Some MISSING_READ_MESSAGE_HISTORY
                  else None) None = None"
    using assms by (auto simp: when_guild_def)
  have over: "getMessages d data options st = (Resolved None, st)"
    if "options = Some opts" and "limit opts = Some n" and "100 < n" for opts n
    using that pass by (simp add: getMessages_def)
  have within: "requests (snd (getMessages d data options st)) =
          requests st @ [GET (CHANNEL_MESSAGES (id' data)) options]"
    if "\<forall>opts n. options = Some opts \<and> limit opts = Some n \<longrightarrow> n \<le> 100"
  proof -
    from that have "\<not> (case options of
               None \<Rightarrow> False
             | Some opts \<Rightarrow> (case limit opts of None \<Rightarrow> False | Some n \<Rightarrow> n \<noteq> 0 \<and> n > 100))"
      by (auto split: option.splits)
    with pass show ?thesis
      by (simp add: getMessages_def Let_def dispatch_def)
  qed
  from over within show ?thesis by blast
qed

theorem C6_getMessages_limit_witness:
  "getMessages (sample_deps True) guild_payload
       (Some \<lparr>limit = Some 150, after = None, before = None, around = None\<rparr>) empty_world
     = (Resolved None, empty_world) \<and>
   requests (snd (getMessages (sample_deps True) guild_payload
       (Some \<lparr>limit = Some 100, after = None, before = None, around = None\<rparr>) empty_world))
     = [GET (CHANNEL_MESSAGES ''10'')
          (Some \<lparr>limit = Some 100, after = None, before = None, around = None\<rparr>)] \<and>
   requests (snd (getMessages (sample_deps True) guild_payload None empty_world))
     = [GET (CHANNEL_MESSAGES ''10'') None]"
  using C6_getMessages_limit [where data = guild_payload and d = "sample_deps True"
     and options = "Some \<lparr>limit = Some 150, after = None, before = None, around = None\<rparr>"
     and st = empty_world]
    C6_getMessages_limit [where data = guild_payload and d = "sample_deps True"
     and options = "Some \<lparr>limit = Some 100, after = None, before = None, around = None\<rparr>"
     and st = empty_world]
    C6_getMessages_limit [where data = guild_payload and d = "sample_deps True"
     and options = None and st = empty_world]
  by (simp add: guild_payload_def sample_deps_def empty_world_def)


section \<open>Channels without a guild id\<close>

text \<open>
  Claim C7. For a payload without \<open>guild_id\<close> none of \<open>getMessage\<close>, \<open>getMessages\<close>,
  \<open>sendMessage\<close>, \<open>deleteMessages\<close>, \<open>getInvites\<close>, \<open>createInvite\<close> and \<open>getWebhooks\<close>
  asks the guild permission oracle: each gives the same result and the same world under
  any other oracle. None of them fails with a missing-permission error: \<open>getMessage\<close> and
  \<open>getMessages\<close> are rejected with no error of \<open>Errors\<close> at all, \<open>sendMessage\<close> only with
  the message-too-long error, \<open>deleteMessages\<close> throws only the below-minimum error, and
  the other three return the transport's promise.
\<close>

theorem C7_no_guild_no_permission_assertion:
  assumes "guild_id data = None"
  shows
    "getMessage (d\<lparr>botHasPermission := other_oracle\<rparr>) data mid st = getMessage d data mid st \<and>
     getMessages (d\<lparr>botHasPermission := other_oracle\<rparr>) data options st = getMessages d data options st \<and>
     sendMessage (d\<lparr>botHasPermission := other_oracle\<rparr>) data arg st = sendMessage d data arg st \<and>
     deleteMessages (d\<lparr>botHasPermission := other_oracle\<rparr>) data ids rsn st = deleteMessages d data ids rsn st \<and>
     getInvites (d\<lparr>botHasPermission := other_oracle\<rparr>) data st = getInvites d data st \<and>
     createInvite (d\<lparr>botHasPermission := other_oracle\<rparr>) data invite st = createInvite d data invite st \<and>
     getWebhooks (d\<lparr>botHasPermission := other_oracle\<rparr>) data st = getWebhooks d data st \<and>
     (\<forall>e. fst (getMessage d data mid st) \<noteq> Rejected (Error e)) \<and>
     (\<forall>e. fst (getMessages d data options st) \<noteq> Rejected (Error e)) \<and>
     (\<forall>e. fst (sendMessage d data arg st) = Rejected (Error e) \<longrightarrow> e = MESSAGE_MAX_LENGTH) \<and>
     (\<forall>e. fst (deleteMessages d data ids rsn st) = Inl e \<longrightarrow> e = DELETE_MESSAGES_MIN) \<and>
     fst (getInvites d data st) = Inr (RequestManager d (GET (CHANNEL_INVITES (id' data)) None)) \<and>
     fst (createInvite d data invite st) =
       Inr (RequestManager d (POST (CHANNEL_INVITES (id' data)) (OptionsBody invite))) \<and>
     fst (getWebhooks d data st) = Inr (RequestManager d (GET (CHANNEL_WEBHOOKS (id' data)) None))"
proof -
  have o1: "getMessage (d\<lparr>botHasPermission := other_oracle\<rparr>) data mid st = getMessage d data mid st"
    using assms by (simp add: getMessage_def Let_def split: response.splits json.splits)
  have o2: "getMessages (d\<lparr>botHasPermission := other_oracle\<rparr>) data options st = getMessages d data options st"
    using assms by (simp add: getMessages_def Let_def split: response.splits json.splits)
  have o3: "sendMessage (d\<lparr>botHasPermission := other_oracle\<rparr>) data arg st = sendMessage d data arg st"
    using assms by (simp add: sendMessage_def Let_def split: response.splits json.splits)
  have o4: "deleteMessages (d\<lparr>botHasPermission := other_oracle\<rparr>) data ids rsn st = deleteMessages d data ids rsn st"
    using assms by (simp add: deleteMessages_def Let_def)
  have o5: "getInvites (d\<lparr>botHasPermission := other_oracle\<rparr>) data st = getInvites d data st"
    using assms by (simp add: getInvites_def Let_def)
  have o6: "createInvite (d\<lparr>botHasPermission := other_oracle\<rparr>) data invite st = createInvite d data invite st"
    using assms by (simp add: createInvite_def Let_def)
  have o7: "getWebhooks (d\<lparr>botHasPermission := other_oracle\<rparr>) data st = getWebhooks d data st"
    using assms by (simp add: getWebhooks_def Let_def)
  have e1: "fst (getMessage d data mid st) \<noteq> Rejected (Error e)" for e
    using assms by (simp add: getMessage_def Let_def split: response.splits)
  have e2: "fst (getMessages d data options st) \<noteq> Rejected (Error e)" for e
    using assms by (simp add: getMessages_def Let_def split: response.splits json.splits)
  have e3: "fst (sendMessage d data arg st) = Rejected (Error e) \<Longrightarrow> e = MESSAGE_MAX_LENGTH" for e
    using assms by (simp add: sendMessage_def Let_def split: if_splits response.splits)
  have e4: "fst (deleteMessages d data ids rsn st) = Inl e \<Longrightarrow> e = DELETE_MESSAGES_MIN" for e
    using assms by (simp add: deleteMessages_def Let_def splice0_def split: if_splits)
  have r5: "fst (getInvites d data st) = Inr (RequestManager d (GET (CHANNEL_INVITES (id' data)) None))"
    using assms by (simp add: getInvites_def Let_def)
  have r6: "fst (createInvite d data invite st) =
       Inr (RequestManager d (POST (CHANNEL_INVITES (id' data)) (OptionsBody invite)))"
    using assms by (simp add: createInvite_def Let_def)
  have r7: "fst (getWebhooks d data st) = Inr (RequestManager d (GET (CHANNEL_WEBHOOKS (id' data)) None))"
    using assms by (simp add: getWebhooks_def Let_def)
  from o1 o2 o3 o4 o5 o6 o7 e1 e2 e3 e4 r5 r6 r7 show ?thesis
    by blast
qed

theorem C7_no_guild_no_permission_assertion_witness:
  "fst (getInvites (sample_deps False) bare_payload empty_world) = Inr (Fulfilled (JArr [])) \<and>
   fst (getWebhooks (sample_deps False) bare_payload empty_world) = Inr (Fulfilled (JArr [])) \<and>
   fst (createInvite (sample_deps False) bare_payload JNull empty_world) = Inr (Fulfilled (JArr []))"
  using C7_no_guild_no_permission_assertion [where data = bare_payload and d = "sample_deps False"
     and st = empty_world and invite = JNull and other_oracle = "\<lambda>g perms. True" and mid = "''1''"
     and options = None and arg = "Str ''hi''" and ids = "[]" and rsn = None]
  by (simp add: bare_payload_def sample_deps_def)

section \<open>\<open>edit\<close> and the channel cache\<close>

text \<open>
  Claim C8. \<open>edit\<close> returns the transport's answer to the patch request as it is, whatever
  the guild permission oracle says, and its only effect is that one request: the channel
  cache, and with it the entry of this channel and every field of the cached entity, is
  what it was before, and no warning is logged.
\<close>

theorem C8_edit_leaves_entity_and_cache:
  "fst (edit d data options st) =
     RequestManager d (PATCH (GUILD_CHANNELS (id' data)) (OptionsBody options)) \<and>
   edit (d\<lparr>botHasPermission := other_oracle\<rparr>) data options st = edit d data options st \<and>
   cache (snd (edit d data options st)) = cache st \<and>
   cache (snd (edit d data options st)) (id' data) = cache st (id' data) \<and>
   warnings (snd (edit d data options st)) = warnings st \<and>
   requests (snd (edit d data options st)) =
     requests st @ [PATCH (GUILD_CHANNELS (id' data)) (OptionsBody options)]"
  by (simp add: edit_def dispatch_def Let_def)

text \<open>
  A channel is created from the guild payload and then edited: the cache still holds the
  channel as \<open>createChannel\<close> built it.
\<close>

theorem C8_edit_leaves_entity_and_cache_witness:
  "cache (snd (edit (sample_deps False) guild_payload (JObj [(''name'', JStr ''general'')])
                (snd (createChannel (sample_deps False) guild_payload empty_world)))) ''10''
     = Some (fst (createChannel (sample_deps False) guild_payload empty_world))"
  using C8_edit_leaves_entity_and_cache [where data = guild_payload and d = "sample_deps False"
     and options = "JObj [(''name'', JStr ''general'')]"
     and st = "snd (createChannel (sample_deps False) guild_payload empty_world)"]
  by (simp add: createChannel_def updateChannelCache_def guild_payload_def Let_def)

section \<open>\<open>createChannel\<close>\<close>

text \<open>
  Claim C9. For every raw payload the channel built by \<open>createChannel\<close> has as \<open>mention\<close>
  the string \<open><#\<close>, the id, \<open>>\<close> (\<open><#10>\<close> for the id \<open>10\<close>); its \<open>nsfw\<close> is false when
  the payload has no \<open>nsfw\<close>; and its normalized overwrites \<open>permissions\<close> are the empty
  sequence when the payload has no \<open>permission_overwrites\<close>. (The \<open>nsfw\<close> of a channel
  is the spread property overridden by the defaulted one, hence \<open>Some False\<close>.)
\<close>

theorem C9_createChannel_defaults:
  "mention (fst (createChannel d data st)) = ''<#'' @ id' data @ ''>'' \<and>
   (id' data = ''10'' \<longrightarrow> mention (fst (createChannel d data st)) = ''<#10>'') \<and>
   (nsfw data = None \<longrightarrow> nsfw (fst (createChannel d data st)) = Some False) \<and>
   (permission_overwrites data = None \<longrightarrow> permissions (fst (createChannel d data st)) = [])"
  by (simp add: createChannel_def Let_def)

theorem C9_createChannel_defaults_witness:
  "mention (fst (createChannel (sample_deps False) bare_payload empty_world)) = ''<#10>'' \<and>
   nsfw (fst (createChannel (sample_deps False) bare_payload empty_world)) = Some False \<and>
   permissions (fst (createChannel (sample_deps False) bare_payload empty_world)) = []"
  using C9_createChannel_defaults [where data = bare_payload and d = "sample_deps False"
     and st = empty_world]
  by (simp add: bare_payload_def)

section \<open>The caller's array of ids\<close>

text \<open>
  Claim C10. A call of \<open>deleteMessages\<close> that reaches the transport (at least 2 ids; the
  permission granted, or no guild id) changes the caller's array: \<open>splice\<close> takes its first
  \<open>min 100 (length ids)\<close> elements out, so the array holds afterwards the elements beyond
  the first 100 and is empty whenever at most 100 ids were passed, although nothing had to
  be cut off then.
\<close>

theorem C10_deleteMessages_empties_ids:
  assumes "2 \<le> length ids"
    and "guild_id data = None \<or>
         (\<exists>g. guild_id data = Some g \<and> botHasPermission d g [MANAGE_MESSAGES (Permissions d)])"
  shows
    "fst (snd (deleteMessages d data ids rsn st)) = drop (min 100 (length ids)) ids \<and>
     fst (snd (deleteMessages d data ids rsn st)) = drop 100 ids \<and>
     length (fst (snd (deleteMessages d data ids rsn st))) = length ids - min 100 (length ids) \<and>
     (length ids \<le> 100 \<longrightarrow> fst (snd (deleteMessages d data ids rsn st)) = []) \<and>
     (\<exists>req. requests (snd (snd (deleteMessages d data ids rsn st))) = requests st @ [req])"
proof -
  have pass: "\<not> when_guild (guild_id data)
                  (\<lambda>g. \<not> botHasPermission d g [MANAGE_MESSAGES (Permissions d)]) False"
    using assms(2) by (auto simp: when_guild_def)
  from assms(1) have "\<not> length ids < 2" by simp
  with pass have run: "deleteMessages d data ids rsn st =
      (Inr (RequestManager d (POST (CHANNEL_BULK_DELETE (id' data)) (BulkDeleteBody (take 100 ids) rsn))),
       drop 100 ids,
       dispatch (POST (CHANNEL_BULK_DELETE (id' data)) (BulkDeleteBody (take 100 ids) rsn))
         (if length ids > 100
          then logYellow ''This endpoint only accepts a maximum of 100 messages. Deleting the first 100 message ids provided.'' st
          else st))"
    by (simp add: deleteMessages_def splice0_def Let_def)
  have left: "fst (snd (deleteMessages d data ids rsn st)) = drop 100 ids"
    by (simp add: run)
  have cut: "drop (min 100 (length ids)) ids = drop 100 ids"
    by (cases "length ids \<le> 100") (simp_all add: min_def)
  have sent: "\<exists>req. requests (snd (snd (deleteMessages d data ids rsn st))) = requests st @ [req]"
    by (simp add: run dispatch_def logYellow_def)
  from left cut sent show ?thesis
    by auto
qed

theorem C10_deleteMessages_empties_ids_witness:
  "fst (snd (deleteMessages (sample_deps True) guild_payload [''1'', ''2'', ''3''] None empty_world)) = [] \<and>
   length (fst (snd (deleteMessages (sample_deps True) guild_payload (many_ids 150) None empty_world))) = 50"
  using C10_deleteMessages_empties_ids [where data = guild_payload and d = "sample_deps True"
     and ids = "[''1'', ''2'', ''3'']" and rsn = None and st = empty_world]
    C10_deleteMessages_empties_ids [where data = guild_payload and d = "sample_deps True"
     and ids = "many_ids 150" and rsn = None and st = empty_world]
  by (simp add: guild_payload_def sample_deps_def)


end
